theory Spec2Isabelle
  imports Complex_Main "HOL-Library.Multiset"
begin

section \<open>Numbers\<close>

text \<open>
  The source computes with the \<^verbatim>\<open>number\<close> type of TypeScript. A number is a real number or
  one of the three special values that the arithmetic of the source can produce: \<open>NaN\<close> (zero
  divided by zero) and the two infinities. The two zeros of the representation are one value
  \<open>Fin 0\<close>, read as the positive zero.

  The program is embedded twice. In the first embedding the operations \<open>+\<close>, \<open>-\<close>, \<open>*\<close> and
  \<open>/\<close> are exact on finite numbers; it carries the properties that do not depend on rounding:
  which branch is taken, how many points are produced, where \<open>NaN\<close> arises, the sign of a
  result. In the second embedding (the definitions named \<open>_double\<close>) every operation returns
  the double-precision number nearest to the exact result; it carries the properties that
  depend on the rounded values.
\<close>

datatype number = Fin real | PInf | NInf | NaN

instantiation number :: "{comm_monoid_add, one, uminus, minus, times, inverse}"
begin

definition zero_number :: number where
  "zero_number = Fin 0"

definition one_number :: number where
  "one_number = Fin 1"

fun plus_number :: "number \<Rightarrow> number \<Rightarrow> number" where
  "plus_number NaN _ = NaN"
| "plus_number _ NaN = NaN"
| "plus_number (Fin a) (Fin b) = Fin (a + b)"
| "plus_number (Fin a) PInf = PInf"
| "plus_number (Fin a) NInf = NInf"
| "plus_number PInf (Fin b) = PInf"
| "plus_number NInf (Fin b) = NInf"
| "plus_number PInf PInf = PInf"
| "plus_number NInf NInf = NInf"
| "plus_number PInf NInf = NaN"
| "plus_number NInf PInf = NaN"

fun uminus_number :: "number \<Rightarrow> number" where
  "uminus_number (Fin a) = Fin (- a)"
| "uminus_number PInf = NInf"
| "uminus_number NInf = PInf"
| "uminus_number NaN = NaN"

definition minus_number :: "number \<Rightarrow> number \<Rightarrow> number" where
  "minus_number a b = a + (- b)"

text \<open>The sign of a product with an infinity; zero times infinity is \<open>NaN\<close>.\<close>

fun times_number :: "number \<Rightarrow> number \<Rightarrow> number" where
  "times_number NaN _ = NaN"
| "times_number _ NaN = NaN"
| "times_number (Fin a) (Fin b) = Fin (a * b)"
| "times_number (Fin a) PInf = (if 0 < a then PInf else if a < 0 then NInf else NaN)"
| "times_number (Fin a) NInf = (if 0 < a then NInf else if a < 0 then PInf else NaN)"
| "times_number PInf (Fin b) = (if 0 < b then PInf else if b < 0 then NInf else NaN)"
| "times_number NInf (Fin b) = (if 0 < b then NInf else if b < 0 then PInf else NaN)"
| "times_number PInf PInf = PInf"
| "times_number NInf NInf = PInf"
| "times_number PInf NInf = NInf"
| "times_number NInf PInf = NInf"

text \<open>
  Division: a finite number over zero is an infinity of the sign of the numerator (the zero
  being the positive one), zero over zero and infinity over infinity are \<open>NaN\<close>.
\<close>

fun divide_number :: "number \<Rightarrow> number \<Rightarrow> number" where
  "divide_number NaN _ = NaN"
| "divide_number _ NaN = NaN"
| "divide_number (Fin a) (Fin b) =
     (if b \<noteq> 0 then Fin (a / b)
      else if 0 < a then PInf else if a < 0 then NInf else NaN)"
| "divide_number (Fin a) PInf = Fin 0"
| "divide_number (Fin a) NInf = Fin 0"
| "divide_number PInf (Fin b) = (if 0 \<le> b then PInf else NInf)"
| "divide_number NInf (Fin b) = (if 0 \<le> b then NInf else PInf)"
| "divide_number PInf PInf = NaN"
| "divide_number NInf NInf = NaN"
| "divide_number PInf NInf = NaN"
| "divide_number NInf PInf = NaN"

definition inverse_number :: "number \<Rightarrow> number" where
  "inverse_number a = divide (Fin 1) a"

text \<open>
  Without rounding, addition is associative and commutative also at the special values: a sum
  is \<open>NaN\<close> exactly when a term is, or when infinities of both signs occur in it.
\<close>

instance
proof
  fix u v w :: number
  show "0 + u = u"
    by (cases u) (simp_all add: zero_number_def)
  show "u + v = v + u"
    by (cases u; cases v) simp_all
  show "u + v + w = u + (v + w)"
    by (cases u; cases v; cases w) simp_all
qed

end

text \<open>The comparisons \<^verbatim>\<open><\<close>, \<^verbatim>\<open><=\<close> and \<^verbatim>\<open>>=\<close>: false as soon as an operand is \<open>NaN\<close>.\<close>

fun js_lt :: "number \<Rightarrow> number \<Rightarrow> bool" where
  "js_lt NaN _ = False"
| "js_lt _ NaN = False"
| "js_lt (Fin a) (Fin b) = (a < b)"
| "js_lt (Fin a) PInf = True"
| "js_lt (Fin a) NInf = False"
| "js_lt PInf _ = False"
| "js_lt NInf (Fin b) = True"
| "js_lt NInf PInf = True"
| "js_lt NInf NInf = False"

fun js_le :: "number \<Rightarrow> number \<Rightarrow> bool" where
  "js_le NaN _ = False"
| "js_le _ NaN = False"
| "js_le (Fin a) (Fin b) = (a \<le> b)"
| "js_le (Fin a) PInf = True"
| "js_le (Fin a) NInf = False"
| "js_le PInf (Fin b) = False"
| "js_le PInf PInf = True"
| "js_le PInf NInf = False"
| "js_le NInf _ = True"

definition js_ge :: "number \<Rightarrow> number \<Rightarrow> bool" where
  "js_ge a b = js_le b a"

text \<open>\<^verbatim>\<open>Math.min\<close> of two arguments and \<^verbatim>\<open>Math.abs\<close>.\<close>

fun Math_min :: "number \<Rightarrow> number \<Rightarrow> number" where
  "Math_min NaN _ = NaN"
| "Math_min _ NaN = NaN"
| "Math_min a b = (if js_le a b then a else b)"

fun Math_abs :: "number \<Rightarrow> number" where
  "Math_abs (Fin a) = Fin \<bar>a\<bar>"
| "Math_abs PInf = PInf"
| "Math_abs NInf = PInf"
| "Math_abs NaN = NaN"

text \<open>
  \<^verbatim>\<open>Math.atan2(y, x)\<close>: the angle of the point \<open>(x, y)\<close> in \<open>(-\<pi>, \<pi>]\<close>, with the values the
  language fixes at the origin and at the infinities.
\<close>

definition atan2_real :: "real \<Rightarrow> real \<Rightarrow> real" where
  "atan2_real b a =
     (if 0 < a then arctan (b / a)
      else if a < 0 then (if 0 \<le> b then arctan (b / a) + pi else arctan (b / a) - pi)
      else if 0 < b then pi / 2
      else if b < 0 then - pi / 2
      else 0)"

fun Math_atan2 :: "number \<Rightarrow> number \<Rightarrow> number" where
  "Math_atan2 NaN _ = NaN"
| "Math_atan2 _ NaN = NaN"
| "Math_atan2 (Fin b) (Fin a) = Fin (atan2_real b a)"
| "Math_atan2 (Fin b) PInf = Fin 0"
| "Math_atan2 (Fin b) NInf = (if 0 \<le> b then Fin pi else Fin (- pi))"
| "Math_atan2 PInf (Fin a) = Fin (pi / 2)"
| "Math_atan2 NInf (Fin a) = Fin (- pi / 2)"
| "Math_atan2 PInf PInf = Fin (pi / 4)"
| "Math_atan2 PInf NInf = Fin (3 * pi / 4)"
| "Math_atan2 NInf PInf = Fin (- pi / 4)"
| "Math_atan2 NInf NInf = Fin (- 3 * pi / 4)"

section \<open>Vectors and meshes\<close>

text \<open>
  \<^verbatim>\<open>Vector3\<close> and \<^verbatim>\<open>Mesh\<close> come from the rendering library. Of a vector the source uses the
  three coordinates, \<^verbatim>\<open>add\<close> and \<^verbatim>\<open>scale\<close>; of a mesh it uses the position data (absent, or a
  flat array of coordinates), the index data (absent, or a flat array of vertex numbers) and
  the elevations \<^verbatim>\<open>minimumWorld.y\<close> and \<^verbatim>\<open>maximumWorld.y\<close> of its bounding box, which the
  library computes and the model takes as fields of the mesh.
\<close>

datatype Vector3 = Vector3 (vec_x: number) (vec_y: number) (vec_z: number)

definition add :: "Vector3 \<Rightarrow> Vector3 \<Rightarrow> Vector3" where
  "add a b = Vector3 (vec_x a + vec_x b) (vec_y a + vec_y b) (vec_z a + vec_z b)"

definition scale :: "Vector3 \<Rightarrow> number \<Rightarrow> Vector3" where
  "scale a s = Vector3 (vec_x a * s) (vec_y a * s) (vec_z a * s)"

record Mesh =
  getVerticesData_position :: "number list option"
  getIndices :: "nat list option"
  minimumWorld_y :: number
  maximumWorld_y :: number

text \<open>
  Reading an array out of range gives \<^verbatim>\<open>undefined\<close>. An undefined index multiplied by 3 is
  \<open>NaN\<close>, at which the position array is undefined again; and the constructor of \<^verbatim>\<open>Vector3\<close>
  takes 0 for a coordinate that is undefined (its parameters default to 0).
\<close>

definition read_index :: "nat list \<Rightarrow> nat \<Rightarrow> nat option" where
  "read_index inds i = (if i < length inds then Some (inds ! i) else None)"

definition read_position :: "number list \<Rightarrow> nat option \<Rightarrow> nat \<Rightarrow> number" where
  "read_position ps k off =
     (case k of
        None \<Rightarrow> Fin 0
      | Some n \<Rightarrow> if n * 3 + off < length ps then ps ! (n * 3 + off) else Fin 0)"

definition vertex :: "number list \<Rightarrow> nat list \<Rightarrow> nat \<Rightarrow> Vector3" where
  "vertex ps inds i =
     Vector3 (read_position ps (read_index inds i) 0)
             (read_position ps (read_index inds i) 1)
             (read_position ps (read_index inds i) 2)"

section \<open>Intersection of a triangle with a horizontal plane\<close>

text \<open>
  The point computed for an edge that meets the plane, and the body of \<^verbatim>\<open>edges.forEach\<close>:
  the accumulator is returned with the point pushed.
\<close>

definition interpolate :: "Vector3 \<Rightarrow> Vector3 \<Rightarrow> number \<Rightarrow> Vector3" where
  "interpolate start end height =
     (let t = (height - vec_y start) / (vec_y end - vec_y start);
          x = vec_x start + t * (vec_x end - vec_x start);
          z = vec_z start + t * (vec_z end - vec_z start)
      in Vector3 x height z)"

definition edge_body :: "number \<Rightarrow> Vector3 list \<Rightarrow> Vector3 \<times> Vector3 \<Rightarrow> Vector3 list" where
  "edge_body height intersectionPoints edge =
     (case edge of (start, end) \<Rightarrow>
        if (js_le (vec_y start) height \<and> js_ge (vec_y end) height) \<or>
           (js_ge (vec_y start) height \<and> js_le (vec_y end) height)
        then intersectionPoints @ [interpolate start end height]
        else intersectionPoints)"

definition findIntersectionPoints ::
  "Vector3 \<Rightarrow> Vector3 \<Rightarrow> Vector3 \<Rightarrow> number \<Rightarrow> Vector3 list \<Rightarrow> Vector3 list" where
  "findIntersectionPoints v1 v2 v3 height intersectionPoints =
     foldl (edge_body height) intersectionPoints [(v1, v2), (v2, v3), (v3, v1)]"

section \<open>Polygon area\<close>

definition shoelace_body :: "Vector3 list \<Rightarrow> number \<Rightarrow> nat \<Rightarrow> number" where
  "shoelace_body points area i =
     (let j = (i + 1) mod length points;
          area1 = area + vec_x (points ! i) * vec_z (points ! j)
      in area1 - vec_x (points ! j) * vec_z (points ! i))"

definition calculatePolygonArea :: "Vector3 list \<Rightarrow> number" where
  "calculatePolygonArea points =
     (if length points < 3 then 0
      else Math_abs (foldl (shoelace_body points) 0 [0..<length points]) / Fin 2)"

section \<open>Removing duplicate points\<close>

text \<open>
  \<^verbatim>\<open>toFixed(6)\<close> gives a string. The model keeps what determines it: for a finite number of
  magnitude below \<open>10^21\<close>, whether the sign \<^verbatim>\<open>-\<close> is written (the number is negative) and the
  integer \<open>n\<close> for which \<open>n / 10^6\<close> is nearest to the magnitude, the larger one at a tie, whose
  digits are written with the point before the last six; for a larger magnitude the usual
  rendering of the number, which differs for different numbers; and a name for each special
  value. Two numbers have the same string exactly when they have the same value here.
\<close>

datatype fixed_string =
    Digits bool nat
  | Exponential real
  | Str_Infinity
  | Str_NegInfinity
  | Str_NaN

fun toFixed6 :: "number \<Rightarrow> fixed_string" where
  "toFixed6 (Fin r) =
     (if 10 ^ 21 \<le> \<bar>r\<bar> then Exponential r
      else Digits (r < 0) (nat \<lfloor>\<bar>r\<bar> * 10 ^ 6 + 1 / 2\<rfloor>))"
| "toFixed6 PInf = Str_Infinity"
| "toFixed6 NInf = Str_NegInfinity"
| "toFixed6 NaN = Str_NaN"

text \<open>The key \<^verbatim>\<open>`${point.x.toFixed(6)}:${point.z.toFixed(6)}`\<close>: the two strings, kept apart.\<close>

definition point_key :: "Vector3 \<Rightarrow> fixed_string \<times> fixed_string" where
  "point_key point = (toFixed6 (vec_x point), toFixed6 (vec_z point))"

text \<open>
  A \<^verbatim>\<open>Map\<close> keeps its entries in the order in which their keys were first set; setting a key
  that is present replaces its value where it stands.
\<close>

fun Map_set :: "('k \<times> 'v) list \<Rightarrow> 'k \<Rightarrow> 'v \<Rightarrow> ('k \<times> 'v) list" where
  "Map_set [] k v = [(k, v)]"
| "Map_set ((k', v') # m) k v = (if k' = k then (k, v) # m else (k', v') # Map_set m k v)"

definition Map_values :: "('k \<times> 'v) list \<Rightarrow> 'v list" where
  "Map_values m = map snd m"

text \<open>
  \<^verbatim>\<open>uniquePoints\<close> when \<^verbatim>\<open>points.forEach\<close> has run, and the array of its values.
\<close>

definition dedup_map :: "Vector3 list \<Rightarrow> ((fixed_string \<times> fixed_string) \<times> Vector3) list" where
  "dedup_map points =
     foldl (\<lambda>uniquePoints point. Map_set uniquePoints (point_key point) point) [] points"

definition removeDuplicatePoints :: "Vector3 list \<Rightarrow> Vector3 list" where
  "removeDuplicatePoints points = Map_values (dedup_map points)"

section \<open>Sorting points by angle\<close>

text \<open>
  \<^verbatim>\<open>Array.prototype.sort\<close> with a comparison function is stable: an element goes before another
  exactly when the comparison of the two is negative, and a comparison that is \<open>NaN\<close> counts as
  zero. It is modelled by insertion from the left. The comparison of the source is \<open>NaN\<close> when
  the centre or a point has a \<open>NaN\<close> coordinate; where that makes the comparisons inconsistent
  the language leaves the order to the implementation, and the result is some permutation of
  the points.
\<close>

fun insert_by :: "('a \<Rightarrow> 'a \<Rightarrow> number) \<Rightarrow> 'a \<Rightarrow> 'a list \<Rightarrow> 'a list" where
  "insert_by cmp a [] = [a]"
| "insert_by cmp a (b # bs) = (if js_lt (cmp a b) 0 then a # b # bs else b # insert_by cmp a bs)"

definition Array_sort :: "('a \<Rightarrow> 'a \<Rightarrow> number) \<Rightarrow> 'a list \<Rightarrow> 'a list" where
  "Array_sort cmp xs = foldl (\<lambda>sorted a. insert_by cmp a sorted) [] xs"

definition compare_angle :: "Vector3 \<Rightarrow> Vector3 \<Rightarrow> Vector3 \<Rightarrow> number" where
  "compare_angle center a b =
     (let angleA = Math_atan2 (vec_z a - vec_z center) (vec_x a - vec_x center);
          angleB = Math_atan2 (vec_z b - vec_z center) (vec_x b - vec_x center)
      in angleA - angleB)"

definition sortPointsByAngle :: "Vector3 list \<Rightarrow> Vector3 list" where
  "sortPointsByAngle points =
     (let center = scale (foldl add (Vector3 0 0 0) points) (Fin 1 / Fin (real (length points)))
      in Array_sort (compare_angle center) points)"

section \<open>Cross-section area and volume\<close>

text \<open>The loop over the triangles: \<open>i\<close> goes up by 3 while it is below the number of indices.\<close>

function triangle_loop :: "number list \<Rightarrow> nat list \<Rightarrow> number \<Rightarrow> nat \<Rightarrow> Vector3 list \<Rightarrow> Vector3 list" where
  "triangle_loop ps inds height i intersectionPoints =
     (if i < length inds then
        triangle_loop ps inds height (i + 3)
          (findIntersectionPoints (vertex ps inds i) (vertex ps inds (i + 1)) (vertex ps inds (i + 2))
             height intersectionPoints)
      else intersectionPoints)"
  by pat_completeness auto
termination
  by (relation "measure (\<lambda>(ps, inds, height, i, acc). length inds - i)") auto

declare triangle_loop.simps [simp del]

definition calculateCrossSectionArea :: "Mesh \<Rightarrow> number \<Rightarrow> number" where
  "calculateCrossSectionArea mesh height =
     (case (getVerticesData_position mesh, getIndices mesh) of
        (Some ps, Some inds) \<Rightarrow>
          calculatePolygonArea
            (sortPointsByAngle (removeDuplicatePoints (triangle_loop ps inds height 0 [])))
      | _ \<Rightarrow> 0)"

text \<open>
  The body of the loop over the slices, and the estimator. The number of slices is an integer
  (the default of the source, 100, is one); the loop runs for \<open>i = 0, 1, \<dots>\<close> below it.
\<close>

definition slice_body :: "Mesh \<Rightarrow> number \<Rightarrow> number \<Rightarrow> number \<Rightarrow> nat \<Rightarrow> number" where
  "slice_body mesh minY sliceHeight totalVolume i =
     (let currentHeight = minY + Fin (real i) * sliceHeight;
          nextHeight = currentHeight + sliceHeight;
          area1 = calculateCrossSectionArea mesh currentHeight;
          area2 = calculateCrossSectionArea mesh nextHeight;
          sliceVolume = (sliceHeight * (area1 + area2)) / Fin 2
      in totalVolume + sliceVolume)"

definition calculateVolumeUpToHeight :: "Mesh \<Rightarrow> number \<Rightarrow> int \<Rightarrow> number" where
  "calculateVolumeUpToHeight mesh height slices =
     (if getVerticesData_position mesh = None \<or> getIndices mesh = None then 0
      else
        let minY = minimumWorld_y mesh;
            maxY = Math_min height (maximumWorld_y mesh)
        in if js_lt height minY then 0
           else
             let sliceHeight = (maxY - minY) / Fin (of_int slices)
             in foldl (slice_body mesh minY sliceHeight) 0 [0..<nat slices])"

section \<open>Double-precision arithmetic\<close>









section \<open>The program in double precision\<close>















section \<open>The statements of the specification\<close>

text \<open>
  An edge meets the plane when one endpoint's elevation is at or above the plane and the
  other's is at or below it; the points such an edge contributes.
\<close>

definition edge_touches :: "Vector3 \<Rightarrow> Vector3 \<Rightarrow> number \<Rightarrow> bool" where
  "edge_touches p q elevation =
     ((js_ge (vec_y p) elevation \<and> js_le (vec_y q) elevation) \<or>
      (js_ge (vec_y q) elevation \<and> js_le (vec_y p) elevation))"

definition edge_points :: "Vector3 \<Rightarrow> Vector3 \<Rightarrow> number \<Rightarrow> Vector3 list" where
  "edge_points p q elevation =
     (if edge_touches p q elevation then [interpolate p q elevation] else [])"

text \<open>
  The shoelace sum of an ordered ring: the sum of \<open>x\<^sub>i * z\<^sub>i\<^sub>+\<^sub>1 - x\<^sub>i\<^sub>+\<^sub>1 * z\<^sub>i\<close> over the consecutive
  pairs, the last point paired with the first.
\<close>

definition shoelace_term :: "Vector3 list \<Rightarrow> nat \<Rightarrow> number" where
  "shoelace_term ring i =
     (let j = (i + 1) mod length ring
      in vec_x (ring ! i) * vec_z (ring ! j) - vec_x (ring ! j) * vec_z (ring ! i))"

definition shoelace_sum :: "Vector3 list \<Rightarrow> number" where
  "shoelace_sum ring = sum_list (map (shoelace_term ring) [0..<length ring])"

text \<open>
  The bands of the trapezoidal rule: \<open>[lo, hi]\<close> divided into \<open>n\<close> bands of equal height, and
  what one band \<open>[lo, hi]\<close> contributes, \<open>(hi - lo) * (areaAt lo + areaAt hi) / 2\<close>.
\<close>

definition bands :: "real \<Rightarrow> real \<Rightarrow> nat \<Rightarrow> (real \<times> real) list" where
  "bands lo hi n =
     map (\<lambda>i. (lo + real i * ((hi - lo) / real n), lo + real (i + 1) * ((hi - lo) / real n)))
       [0..<n]"

definition trapezoid :: "Mesh \<Rightarrow> real \<times> real \<Rightarrow> number" where
  "trapezoid mesh band =
     (case band of (lo, hi) \<Rightarrow>
        Fin (hi - lo) *
          (calculateCrossSectionArea mesh (Fin lo) + calculateCrossSectionArea mesh (Fin hi)) /
        Fin 2)"

text \<open>A result that is a non-negative number, positive infinity included, or \<open>NaN\<close>.\<close>

definition nonneg_or_NaN :: "number \<Rightarrow> bool" where
  "nonneg_or_NaN a = (a = NaN \<or> js_le 0 a)"




section \<open>Example inputs\<close>

text \<open>A mesh without geometry.\<close>

definition no_data_mesh :: Mesh where
  "no_data_mesh =
     \<lparr> getVerticesData_position = None, getIndices = None,
       minimumWorld_y = Fin 0, maximumWorld_y = Fin 0 \<rparr>"

text \<open>
  A closed double pyramid: the apex \<open>(0, 0, 0)\<close>, a square ring at elevation 1 and the apex
  \<open>(0, 2, 0)\<close>, with eight triangular faces.
\<close>

definition bicone :: Mesh where
  "bicone =
     \<lparr> getVerticesData_position = Some (map Fin
         [0, 0, 0,   2, 1, 0,   0, 1, 2,   - 2, 1, 0,   0, 1, - 2,   0, 2, 0]),
       getIndices = Some [0, 1, 2,  0, 2, 3,  0, 3, 4,  0, 4, 1,  5, 1, 2,  5, 2, 3,  5, 3, 4,  5, 4, 1],
       minimumWorld_y = Fin 0, maximumWorld_y = Fin 2 \<rparr>"

text \<open>
  A closed tetrahedron standing on the plane of elevation 0: the base \<open>(0, 0, 0)\<close>,
  \<open>(1, 0, 0)\<close>, \<open>(0, 0, 1)\<close> and the apex \<open>(0, 1, 0)\<close>.
\<close>

definition tetrahedron :: Mesh where
  "tetrahedron =
     \<lparr> getVerticesData_position = Some (map Fin [0, 0, 0,   1, 0, 0,   0, 0, 1,   0, 1, 0]),
       getIndices = Some [0, 1, 2,  0, 1, 3,  1, 2, 3,  2, 0, 3],
       minimumWorld_y = Fin 0, maximumWorld_y = Fin 1 \<rparr>"

text \<open>A triangle with one vertex on the plane of elevation 0 and the others on either side.\<close>

definition tri_a :: Vector3 where "tri_a = Vector3 (Fin 0) (Fin 0) (Fin 0)"
definition tri_b :: Vector3 where "tri_b = Vector3 (Fin 1) (Fin 1) (Fin 0)"
definition tri_c :: Vector3 where "tri_c = Vector3 (Fin 1) (Fin (- 1)) (Fin 0)"


text \<open>
  Two points \<open>2 / 10^7\<close> apart whose coordinates round to different sixth decimals, and three
  points of which the first and the last have the same key.
\<close>

definition near_points :: "Vector3 list" where
  "near_points =
     [Vector3 (Fin (4 / 10000000)) (Fin 1) (Fin 0), Vector3 (Fin (6 / 10000000)) (Fin 1) (Fin 0)]"

definition repeated_points :: "Vector3 list" where
  "repeated_points =
     [Vector3 (Fin (1234561 / 10000000)) (Fin 1) (Fin 0), Vector3 (Fin 3) (Fin 1) (Fin 0),
      Vector3 (Fin (1234564 / 10000000)) (Fin 1) (Fin 0)]"




section \<open>Arithmetic lemmas\<close>

lemma number_zero: "(0::number) = Fin 0"
  by (simp add: zero_number_def)

lemma foldl_plus_sum_list:
  "foldl (\<lambda>s i. s + f i) (a::number) xs = a + sum_list (map f xs)"
  by (induction xs arbitrary: a) (simp_all add: add.assoc)


section \<open>The early returns\<close>

text \<open>
  C6: whatever the target elevation and the slice count, the estimator returns exactly 0 when
  the mesh has no position data or no index data, and when the target elevation is strictly
  below the minimum elevation of the mesh. The function has no path that throws.
\<close>

theorem calculateVolumeUpToHeight_degenerate_zero:
  "(getVerticesData_position mesh = None \<or> getIndices mesh = None
      \<longrightarrow> calculateVolumeUpToHeight mesh height slices = Fin 0) \<and>
   (js_lt height (minimumWorld_y mesh)
      \<longrightarrow> calculateVolumeUpToHeight mesh height slices = Fin 0)"
  by (simp add: calculateVolumeUpToHeight_def Let_def number_zero)

theorem calculateVolumeUpToHeight_degenerate_zero_witness:
  "(getVerticesData_position no_data_mesh = None \<or> getIndices no_data_mesh = None) \<and>
   calculateVolumeUpToHeight no_data_mesh (Fin 5) 100 = Fin 0 \<and>
   js_lt (Fin (- 1)) (minimumWorld_y bicone) \<and>
   calculateVolumeUpToHeight bicone (Fin (- 1)) 100 = Fin 0"
  using calculateVolumeUpToHeight_degenerate_zero [of no_data_mesh "Fin 5" 100]
        calculateVolumeUpToHeight_degenerate_zero [of bicone "Fin (- 1)" 100]
  by (simp add: no_data_mesh_def bicone_def)

text \<open>
  C10: with a slice count that is zero or negative the loop body never runs and the estimator
  returns 0 for every mesh and target elevation; the slice height, a quotient by zero when the
  count is zero, is computed and never used.
\<close>

theorem calculateVolumeUpToHeight_no_slices:
  "slices \<le> 0 \<Longrightarrow> calculateVolumeUpToHeight mesh height slices = Fin 0"
  by (simp add: calculateVolumeUpToHeight_def Let_def number_zero)

theorem calculateVolumeUpToHeight_no_slices_witness:
  "(0::int) \<le> 0 \<and> calculateVolumeUpToHeight bicone (Fin 1) 0 = Fin 0 \<and>
   (- 3::int) \<le> 0 \<and> calculateVolumeUpToHeight bicone (Fin 1) (- 3) = Fin 0"
  using calculateVolumeUpToHeight_no_slices [of 0 bicone "Fin 1"]
        calculateVolumeUpToHeight_no_slices [of "- 3" bicone "Fin 1"]
  by simp

section \<open>Intersection points of one triangle\<close>

lemma edge_body_eq: "edge_body h acc (p, q) = acc @ edge_points p q h"
  by (auto simp: edge_body_def edge_points_def edge_touches_def)

lemma findIntersectionPoints_eq:
  "findIntersectionPoints v1 v2 v3 h acc =
     acc @ edge_points v1 v2 h @ edge_points v2 v3 h @ edge_points v3 v1 h"
  by (simp add: findIntersectionPoints_def edge_body_eq)

lemma not_all_edges_touch:
  assumes "vec_y v1 \<noteq> h" "vec_y v2 \<noteq> h" "vec_y v3 \<noteq> h"
  shows "\<not> (edge_touches v1 v2 h \<and> edge_touches v2 v3 h \<and> edge_touches v3 v1 h)"
  using assms
  by (cases "vec_y v1"; cases "vec_y v2"; cases "vec_y v3"; cases h)
     (auto simp: edge_touches_def js_ge_def)

text \<open>
  C3, as the code has it: \<^verbatim>\<open>findIntersectionPoints\<close> appends, in the order of the edges
  \<open>v1\<close>--\<open>v2\<close>, \<open>v2\<close>--\<open>v3\<close>, \<open>v3\<close>--\<open>v1\<close>, one point for each edge of which one endpoint's elevation
  is at or above the plane and the other's at or below it, and nothing else. These are at
  least 0 and at most 3 points; they are at most 2 when no vertex lies exactly on the plane.
\<close>

theorem findIntersectionPoints_appends:
  "findIntersectionPoints v1 v2 v3 h acc =
     acc @ edge_points v1 v2 h @ edge_points v2 v3 h @ edge_points v3 v1 h \<and>
   length acc \<le> length (findIntersectionPoints v1 v2 v3 h acc) \<and>
   length (findIntersectionPoints v1 v2 v3 h acc) \<le> length acc + 3 \<and>
   (vec_y v1 \<noteq> h \<and> vec_y v2 \<noteq> h \<and> vec_y v3 \<noteq> h \<longrightarrow>
      length (findIntersectionPoints v1 v2 v3 h acc) \<le> length acc + 2)"
  using not_all_edges_touch [of v1 h v2 v3]
  by (auto simp: findIntersectionPoints_eq edge_points_def)

theorem findIntersectionPoints_appends_witness:
  "vec_y tri_a \<noteq> Fin (1 / 2) \<and> vec_y tri_b \<noteq> Fin (1 / 2) \<and> vec_y tri_c \<noteq> Fin (1 / 2) \<and>
   length (findIntersectionPoints tri_a tri_b tri_c (Fin (1 / 2)) []) \<le> 2 \<and>
   findIntersectionPoints tri_a tri_b tri_c (Fin (1 / 2)) [] =
     [Vector3 (Fin (1 / 2)) (Fin (1 / 2)) (Fin 0), Vector3 (Fin 1) (Fin (1 / 2)) (Fin 0)]"
  using findIntersectionPoints_appends [of tri_a tri_b tri_c "Fin (1 / 2)" "[]"]
  by (simp add: tri_a_def tri_b_def tri_c_def edge_points_def edge_touches_def js_ge_def
        interpolate_def Let_def minus_number_def)

text \<open>
  The claim's bound of 2 fails: the triangle with a vertex on the plane and the other two on
  either side of it gets three points, the vertex twice.
\<close>

theorem findIntersectionPoints_three_points:
  "findIntersectionPoints tri_a tri_b tri_c (Fin 0) [] =
     [Vector3 (Fin 0) (Fin 0) (Fin 0), Vector3 (Fin 1) (Fin 0) (Fin 0),
      Vector3 (Fin 0) (Fin 0) (Fin 0)] \<and>
   \<not> length (findIntersectionPoints tri_a tri_b tri_c (Fin 0) []) \<le> length ([] :: Vector3 list) + 2"
  by (simp add: findIntersectionPoints_def edge_body_def tri_a_def tri_b_def tri_c_def js_ge_def
        interpolate_def Let_def minus_number_def)

section \<open>The shoelace formula in exact arithmetic\<close>

lemma shoelace_body_eq: "shoelace_body ps area i = area + shoelace_term ps i"
  by (simp add: shoelace_body_def shoelace_term_def Let_def minus_number_def add.assoc)

lemma shoelace_loop: "foldl (shoelace_body ps) 0 [0..<length ps] = shoelace_sum ps"
  by (simp add: shoelace_body_eq [abs_def] foldl_plus_sum_list shoelace_sum_def)






section \<open>Deduplication\<close>

lemma Map_set_keys:
  "map fst (Map_set m k v) = (if k \<in> fst ` set m then map fst m else map fst m @ [k])"
  by (induction m) (auto simp: rev_image_eqI)

lemma Map_set_distinct: "distinct (map fst m) \<Longrightarrow> distinct (map fst (Map_set m k v))"
  by (simp add: Map_set_keys)

lemma Map_set_map_of: "map_of (Map_set m k v) = (map_of m)(k \<mapsto> v)"
  by (induction m) auto

lemma dedup_map_snoc:
  "dedup_map (ps @ [p]) = Map_set (dedup_map ps) (point_key p) p"
  by (simp add: dedup_map_def)

lemma dedup_map_distinct: "distinct (map fst (dedup_map ps))"
proof (induction ps rule: rev_induct)
  case Nil
  then show ?case by (simp add: dedup_map_def)
next
  case (snoc p ps)
  then show ?case by (simp add: dedup_map_snoc Map_set_distinct)
qed

lemma dedup_map_keys: "set (map fst (dedup_map ps)) = point_key ` set ps"
  by (induction ps rule: rev_induct) (auto simp: dedup_map_snoc Map_set_keys dedup_map_def)

lemma dedup_map_map_of:
  "map_of (dedup_map ps) k =
     (if k \<in> point_key ` set ps then Some (last (filter (\<lambda>q. point_key q = k) ps)) else None)"
proof (induction ps rule: rev_induct)
  case Nil
  then show ?case by (simp add: dedup_map_def)
next
  case (snoc p ps)
  then show ?case by (auto simp: dedup_map_snoc Map_set_map_of)
qed

lemma dedup_map_entry:
  assumes "(k, v) \<in> set (dedup_map ps)"
  shows "k = point_key v \<and> v = last (filter (\<lambda>q. point_key q = k) ps)"
proof -
  have "map_of (dedup_map ps) k = Some v"
    using assms dedup_map_distinct by simp
  then have k: "k \<in> point_key ` set ps" and v: "v = last (filter (\<lambda>q. point_key q = k) ps)"
    by (auto simp: dedup_map_map_of split: if_splits)
  from k have "filter (\<lambda>q. point_key q = k) ps \<noteq> []"
    by (auto simp: filter_empty_conv)
  then have "v \<in> set (filter (\<lambda>q. point_key q = k) ps)"
    using v last_in_set by blast
  then show ?thesis using v by auto
qed

lemma removeDuplicatePoints_eq: "removeDuplicatePoints ps = map snd (dedup_map ps)"
  by (simp add: removeDuplicatePoints_def Map_values_def)

lemma removeDuplicatePoints_keys:
  "map point_key (removeDuplicatePoints ps) = map fst (dedup_map ps)"
  unfolding removeDuplicatePoints_eq using dedup_map_entry [of _ _ ps]
  by (auto intro!: map_cong)

text \<open>
  C7, as the code has it: \<^verbatim>\<open>removeDuplicatePoints\<close> keeps exactly one point for each distinct
  key among the points, the key being the pair of the two in-plane coordinates written with
  six decimals, and the point it keeps for a key is the last point of the list with that key.
  Two points collapse exactly when their keys are equal, which closeness of the coordinates
  does not ensure.
\<close>

theorem removeDuplicatePoints_last_wins:
  "distinct (map point_key (removeDuplicatePoints ps)) \<and>
   set (map point_key (removeDuplicatePoints ps)) = set (map point_key ps) \<and>
   length (removeDuplicatePoints ps) = card (point_key ` set ps) \<and>
   (\<forall>p \<in> set (removeDuplicatePoints ps).
      p = last (filter (\<lambda>q. point_key q = point_key p) ps))"
proof (intro conjI ballI)
  show d: "distinct (map point_key (removeDuplicatePoints ps))"
    by (simp add: removeDuplicatePoints_keys dedup_map_distinct)
  show s: "set (map point_key (removeDuplicatePoints ps)) = set (map point_key ps)"
    using dedup_map_keys [of ps] by (simp add: removeDuplicatePoints_keys)
  have "length (removeDuplicatePoints ps) = length (map point_key (removeDuplicatePoints ps))"
    by simp
  also have "\<dots> = card (set (map point_key (removeDuplicatePoints ps)))"
    using d by (simp only: distinct_card)
  finally show "length (removeDuplicatePoints ps) = card (point_key ` set ps)"
    using s by simp
  show "p = last (filter (\<lambda>q. point_key q = point_key p) ps)"
    if "p \<in> set (removeDuplicatePoints ps)" for p
  proof -
    from that obtain k where "(k, p) \<in> set (dedup_map ps)"
      by (auto simp: removeDuplicatePoints_eq)
    then show ?thesis using dedup_map_entry by blast
  qed
qed

theorem removeDuplicatePoints_last_wins_witness:
  "Vector3 (Fin (1234564 / 10000000)) (Fin 1) (Fin 0) \<in> set (removeDuplicatePoints repeated_points) \<and>
   Vector3 (Fin (1234564 / 10000000)) (Fin 1) (Fin 0) =
     last (filter (\<lambda>q. point_key q = point_key (Vector3 (Fin (1234564 / 10000000)) (Fin 1) (Fin 0)))
       repeated_points) \<and>
   length (removeDuplicatePoints repeated_points) = 2"
  using removeDuplicatePoints_last_wins [of repeated_points]
  by (simp add: repeated_points_def removeDuplicatePoints_def dedup_map_def point_key_def
        Map_values_def)

text \<open>
  The claim's last part fails: two points whose coordinates differ by less than \<open>10^-6\<close> are
  both kept when the sixth decimals they round to differ.
\<close>

theorem removeDuplicatePoints_near_points_kept:
  "\<bar>4 / 10000000 - 6 / 10000000\<bar> < (1 / 1000000 :: real) \<and>
   removeDuplicatePoints near_points = near_points \<and>
   length (removeDuplicatePoints near_points) = 2"
  by (simp add: near_points_def removeDuplicatePoints_def dedup_map_def point_key_def
        Map_values_def)

section \<open>The example meshes, evaluated\<close>

lemmas area_eval = number_zero minus_number_def Let_def js_ge_def
  findIntersectionPoints_def edge_body_def interpolate_def vertex_def read_index_def
  read_position_def triangle_loop.simps removeDuplicatePoints_def dedup_map_def point_key_def
  Map_values_def
  sortPointsByAngle_def Array_sort_def compare_angle_def add_def scale_def atan2_real_def
  calculatePolygonArea_def shoelace_body_def calculateCrossSectionArea_def

lemmas volume_eval =
  calculateVolumeUpToHeight_def slice_body_def Let_def number_zero minus_number_def

lemma bicone_fields:
  "getVerticesData_position bicone \<noteq> None" "getIndices bicone \<noteq> None"
  "minimumWorld_y bicone = Fin 0" "maximumWorld_y bicone = Fin 2"
  by (simp_all add: bicone_def)

lemma tetrahedron_fields:
  "getVerticesData_position tetrahedron \<noteq> None" "getIndices tetrahedron \<noteq> None"
  "minimumWorld_y tetrahedron = Fin 0" "maximumWorld_y tetrahedron = Fin 1"
  by (simp_all add: tetrahedron_def)

text \<open>
  The double pyramid: at its two apexes every intersection point is the apex, one point after
  deduplication; half way up the lower pyramid the section is the square with the corners
  \<open>(\<plusminus>1, 0)\<close> and \<open>(0, \<plusminus>1)\<close>, of area 2.
\<close>

lemma bicone_area_0: "calculateCrossSectionArea bicone (Fin 0) = Fin 0"
  by (simp add: bicone_def area_eval)

lemma bicone_area_2: "calculateCrossSectionArea bicone (Fin 2) = Fin 0"
  by (simp add: bicone_def area_eval)

lemma bicone_area_half: "calculateCrossSectionArea bicone (Fin (1 / 2)) = Fin 2"
  by (simp add: bicone_def area_eval)

lemma bicone_volume_half: "calculateVolumeUpToHeight bicone (Fin (1 / 2)) 1 = Fin (1 / 2)"
  by (simp add: volume_eval bicone_fields bicone_area_0 bicone_area_half)

lemma bicone_volume_2: "calculateVolumeUpToHeight bicone (Fin 2) 1 = Fin 0"
  by (simp add: volume_eval bicone_fields bicone_area_0 bicone_area_2)

lemma bicone_volume_7: "calculateVolumeUpToHeight bicone (Fin 7) 1 = Fin 0"
  by (simp add: volume_eval bicone_fields bicone_area_0 bicone_area_2)

text \<open>
  The tetrahedron: the plane of elevation 0 holds the three edges of the base, each of which
  passes the test of the loop body and gives \<open>t = 0 / 0\<close>.
\<close>

lemma tetrahedron_area_0: "calculateCrossSectionArea tetrahedron (Fin 0) = NaN"
  by (simp add: tetrahedron_def area_eval)

lemma slice_loop_NaN: "foldl (slice_body mesh lo w) NaN xs = NaN"
  by (induction xs) (simp_all add: slice_body_def Let_def)

lemma tetrahedron_volume_NaN:
  assumes "0 \<le> h" and "0 < n"
  shows "calculateVolumeUpToHeight tetrahedron (Fin h) n = NaN"
proof -
  obtain k where k: "nat n = Suc k"
    using assms(2) by (cases "nat n") auto
  have "\<exists>w. (Math_min (Fin h) (Fin 1) - Fin 0) / Fin (of_int n) = Fin w"
    using assms(2) by (cases "h \<le> 1") (simp_all add: minus_number_def)
  then obtain w where w: "(Math_min (Fin h) (Fin 1) - Fin 0) / Fin (of_int n) = Fin w" ..
  have "slice_body tetrahedron (Fin 0) (Fin w) 0 0 = NaN"
    by (simp add: slice_body_def Let_def number_zero tetrahedron_area_0)
  then have "foldl (slice_body tetrahedron (Fin 0) (Fin w)) 0 [0..<Suc k] = NaN"
    by (simp add: upt_conv_Cons slice_loop_NaN del: upt_Suc)
  then show ?thesis
    using assms(1) w k
    by (simp add: calculateVolumeUpToHeight_def Let_def tetrahedron_fields)
qed

section \<open>The trapezoidal rule in exact arithmetic\<close>

lemma band_top: "lo + real i * w + w = lo + real (i + 1) * (w::real)"
  by (simp add: algebra_simps)

lemma band_width: "lo + real (i + 1) * w - (lo + real i * w) = (w::real)"
  by (simp add: algebra_simps)

lemma bands_nth:
  "i < n \<Longrightarrow>
   bands lo hi n ! i =
     (lo + real i * ((hi - lo) / real n), lo + real (i + 1) * ((hi - lo) / real n))"
  by (simp add: bands_def)

text \<open>
  The bands divide \<open>[lo, hi]\<close>: there are \<open>n\<close> of them, the first starts at \<open>lo\<close>, the last
  ends at \<open>hi\<close>, each has the height \<open>(hi - lo) / n\<close> and starts where the one before ends.
\<close>

lemma bands_partition:
  assumes "0 < n"
  shows "length (bands lo hi n) = n"
    and "fst (bands lo hi n ! 0) = lo"
    and "snd (bands lo hi n ! (n - 1)) = hi"
    and "\<forall>i < n. snd (bands lo hi n ! i) - fst (bands lo hi n ! i) = (hi - lo) / real n"
    and "\<forall>i. i + 1 < n \<longrightarrow> snd (bands lo hi n ! i) = fst (bands lo hi n ! (i + 1))"
proof -
  show "length (bands lo hi n) = n"
    by (simp add: bands_def)
  show "fst (bands lo hi n ! 0) = lo"
    using assms by (simp add: bands_nth)
  have "real (n - 1 + 1) = real n"
    using assms by simp
  then show "snd (bands lo hi n ! (n - 1)) = hi"
    using assms by (simp add: bands_nth)
  show "\<forall>i < n. snd (bands lo hi n ! i) - fst (bands lo hi n ! i) = (hi - lo) / real n"
  proof (intro allI impI)
    fix i assume "i < n"
    then show "snd (bands lo hi n ! i) - fst (bands lo hi n ! i) = (hi - lo) / real n"
      by (simp only: bands_nth fst_conv snd_conv band_width)
  qed
  show "\<forall>i. i + 1 < n \<longrightarrow> snd (bands lo hi n ! i) = fst (bands lo hi n ! (i + 1))"
    by (simp add: bands_nth)
qed

lemma slice_body_trapezoid:
  "slice_body mesh (Fin lo) (Fin w) acc i =
     acc + trapezoid mesh (lo + real i * w, lo + real (i + 1) * w)"
  by (simp only: slice_body_def trapezoid_def Let_def prod.case plus_number.simps
        times_number.simps band_top band_width)

text \<open>
  In exact arithmetic, for a mesh with position and index data, a finite minimum elevation
  \<open>lo\<close>, a target elevation at or above it and a positive slice count \<open>n\<close>, the loop returns,
  with \<open>hi\<close> the smaller of the target elevation and the maximum elevation of the mesh, the sum
  over the \<open>n\<close> equal bands of \<open>[lo, hi]\<close> of \<open>(hi - lo) * (areaAt lo + areaAt hi) / 2\<close>. What the
  rounded operations leave of this is in the section on the trapezoidal rule in double
  precision.
\<close>

lemma calculateVolumeUpToHeight_exact_trapezoidal:
  assumes "getVerticesData_position mesh \<noteq> None" and "getIndices mesh \<noteq> None"
      and "minimumWorld_y mesh = Fin lo"
      and "Math_min height (maximumWorld_y mesh) = Fin hi"
      and "js_le (Fin lo) height"
      and "0 < slices"
  shows "calculateVolumeUpToHeight mesh height slices =
         sum_list (map (trapezoid mesh) (bands lo hi (nat slices)))"
proof -
  let ?w = "(hi - lo) / real_of_int slices"
  have nlt: "\<not> js_lt height (Fin lo)"
    using assms(5) by (cases height) simp_all
  have w: "(Fin hi - Fin lo) / Fin (of_int slices) = Fin ?w"
    using assms(6) by (simp add: minus_number_def)
  have "calculateVolumeUpToHeight mesh height slices =
        foldl (slice_body mesh (Fin lo) (Fin ?w)) 0 [0..<nat slices]"
    using assms(1-4) nlt w by (auto simp: calculateVolumeUpToHeight_def Let_def)
  also have "\<dots> = sum_list (map (\<lambda>i. trapezoid mesh (lo + real i * ?w, lo + real (i + 1) * ?w))
                       [0..<nat slices])"
    by (simp add: slice_body_trapezoid [abs_def] foldl_plus_sum_list)
  also have "\<dots> = sum_list (map (trapezoid mesh) (bands lo hi (nat slices)))"
    using assms(6) by (simp add: bands_def comp_def)
  finally show ?thesis .
qed

section \<open>Clamping\<close>

lemma calculateVolumeUpToHeight_above_max:
  assumes "\<not> js_lt (maximumWorld_y mesh) (minimumWorld_y mesh)"
      and "js_le (maximumWorld_y mesh) height"
  shows "calculateVolumeUpToHeight mesh height slices =
         calculateVolumeUpToHeight mesh (maximumWorld_y mesh) slices"
  using assms
  by (cases "minimumWorld_y mesh"; cases "maximumWorld_y mesh"; cases height)
     (simp_all add: calculateVolumeUpToHeight_def Let_def)

text \<open>
  C5: for a mesh whose maximum elevation is not below its minimum elevation (the bounding box
  of the library is such) and a fixed slice count, the estimate for a target elevation above
  the maximum elevation of the mesh is the estimate for the maximum elevation itself.
\<close>

theorem calculateVolumeUpToHeight_clamped:
  assumes "\<not> js_lt (maximumWorld_y mesh) (minimumWorld_y mesh)"
      and "js_lt (maximumWorld_y mesh) height"
  shows "calculateVolumeUpToHeight mesh height slices =
         calculateVolumeUpToHeight mesh (maximumWorld_y mesh) slices"
  using assms
  by (cases "minimumWorld_y mesh"; cases "maximumWorld_y mesh"; cases height)
     (simp_all add: calculateVolumeUpToHeight_def Let_def)

theorem calculateVolumeUpToHeight_clamped_witness:
  "\<not> js_lt (maximumWorld_y bicone) (minimumWorld_y bicone) \<and>
   js_lt (maximumWorld_y bicone) (Fin 7) \<and>
   calculateVolumeUpToHeight bicone (maximumWorld_y bicone) 1 = Fin 0 \<and>
   calculateVolumeUpToHeight bicone (Fin 7) 1 = Fin 0"
  using calculateVolumeUpToHeight_clamped [of bicone "Fin 7" 1]
  by (simp add: bicone_fields bicone_volume_2)

section \<open>Sign of the estimate and monotonicity\<close>

lemma nonneg_or_NaN_zero: "nonneg_or_NaN 0"
  by (simp add: nonneg_or_NaN_def number_zero)

lemma nonneg_or_NaN_add: "nonneg_or_NaN a \<Longrightarrow> nonneg_or_NaN b \<Longrightarrow> nonneg_or_NaN (a + b)"
  by (cases a; cases b) (simp_all add: nonneg_or_NaN_def number_zero)

lemma nonneg_or_NaN_mult: "nonneg_or_NaN a \<Longrightarrow> nonneg_or_NaN b \<Longrightarrow> nonneg_or_NaN (a * b)"
  by (cases a; cases b) (simp_all add: nonneg_or_NaN_def number_zero)

lemma nonneg_or_NaN_half: "nonneg_or_NaN a \<Longrightarrow> nonneg_or_NaN (a / Fin 2)"
  by (cases a) (simp_all add: nonneg_or_NaN_def number_zero)

lemma nonneg_or_NaN_abs: "nonneg_or_NaN (Math_abs a)"
  by (cases a) (simp_all add: nonneg_or_NaN_def number_zero)

lemma calculatePolygonArea_nonneg: "nonneg_or_NaN (calculatePolygonArea ps)"
  by (simp add: calculatePolygonArea_def nonneg_or_NaN_half nonneg_or_NaN_abs nonneg_or_NaN_zero)

lemma calculateCrossSectionArea_nonneg: "nonneg_or_NaN (calculateCrossSectionArea mesh h)"
  by (cases "getVerticesData_position mesh"; cases "getIndices mesh")
     (simp_all add: calculateCrossSectionArea_def calculatePolygonArea_nonneg nonneg_or_NaN_zero)

lemma slice_body_nonneg:
  "nonneg_or_NaN w \<Longrightarrow> nonneg_or_NaN acc \<Longrightarrow> nonneg_or_NaN (slice_body mesh lo w acc i)"
  by (simp add: slice_body_def Let_def nonneg_or_NaN_add nonneg_or_NaN_mult nonneg_or_NaN_half
        calculateCrossSectionArea_nonneg)

lemma slice_loop_nonneg:
  "nonneg_or_NaN w \<Longrightarrow> nonneg_or_NaN acc \<Longrightarrow>
   nonneg_or_NaN (foldl (slice_body mesh lo w) acc xs)"
  by (induction xs arbitrary: acc) (simp_all add: slice_body_nonneg)

lemma sliceHeight_nonneg:
  assumes "js_le lo hi" and "\<not> js_lt h lo" and "0 < n"
  shows "nonneg_or_NaN ((Math_min h hi - lo) / Fin (of_int n))"
  using assms
  by (cases lo; cases hi; cases h)
     (auto simp: nonneg_or_NaN_def number_zero minus_number_def)

text \<open>
  With a bounding box whose minimum elevation is at most its maximum elevation, the estimate
  is never negative: it is a non-negative number or \<open>NaN\<close>.
\<close>

lemma calculateVolumeUpToHeight_nonneg:
  assumes "js_le (minimumWorld_y mesh) (maximumWorld_y mesh)"
  shows "nonneg_or_NaN (calculateVolumeUpToHeight mesh height slices)"
proof (cases "0 < slices")
  case True
  show ?thesis
    using sliceHeight_nonneg [OF assms _ True, of height] nonneg_or_NaN_zero
    by (simp add: calculateVolumeUpToHeight_def Let_def slice_loop_nonneg)
next
  case False
  then show ?thesis
    by (simp add: calculateVolumeUpToHeight_def Let_def nonneg_or_NaN_zero)
qed

lemma js_le_js_lt: "js_le a b \<Longrightarrow> \<not> js_lt b a"
  by (cases a; cases b) simp_all

text \<open>
  C1, as the code has it: for a mesh whose minimum elevation is at most its maximum elevation
  and a fixed slice count, the estimate at \<open>e1\<close> is at most the estimate at \<open>e2\<close> whenever
  \<open>e1 \<le> e2\<close>, \<open>e1\<close> lies below the minimum elevation or at or above the maximum elevation of
  the mesh, and the estimate at \<open>e2\<close> is a number. Between the two elevations the slices move
  with the target elevation and the estimate need not grow with it.
\<close>

theorem calculateVolumeUpToHeight_monotone_outside:
  assumes wf: "js_le (minimumWorld_y mesh) (maximumWorld_y mesh)"
      and le: "js_le e1 e2"
      and outside: "js_lt e1 (minimumWorld_y mesh) \<or> js_le (maximumWorld_y mesh) e1"
      and num: "calculateVolumeUpToHeight mesh e2 slices \<noteq> NaN"
  shows "js_le (calculateVolumeUpToHeight mesh e1 slices)
               (calculateVolumeUpToHeight mesh e2 slices)"
  using outside
proof
  assume "js_lt e1 (minimumWorld_y mesh)"
  then have "calculateVolumeUpToHeight mesh e1 slices = 0"
    by (simp add: calculateVolumeUpToHeight_def Let_def)
  then show ?thesis
    using calculateVolumeUpToHeight_nonneg [OF wf, of e2 slices] num
    by (simp add: nonneg_or_NaN_def)
next
  assume a: "js_le (maximumWorld_y mesh) e1"
  then have b: "js_le (maximumWorld_y mesh) e2"
    using le by (cases "maximumWorld_y mesh"; cases e1; cases e2) simp_all
  note wf' = js_le_js_lt [OF wf]
  have "calculateVolumeUpToHeight mesh e1 slices = calculateVolumeUpToHeight mesh e2 slices"
    using calculateVolumeUpToHeight_above_max [OF wf' a]
          calculateVolumeUpToHeight_above_max [OF wf' b]
    by simp
  then show ?thesis
    using num by (cases "calculateVolumeUpToHeight mesh e2 slices") simp_all
qed

theorem calculateVolumeUpToHeight_monotone_outside_witness:
  "js_le (minimumWorld_y bicone) (maximumWorld_y bicone) \<and>
   js_le (Fin (- 1)) (Fin (1 / 2)) \<and> js_lt (Fin (- 1)) (minimumWorld_y bicone) \<and>
   calculateVolumeUpToHeight bicone (Fin (1 / 2)) 1 \<noteq> NaN \<and>
   js_le (calculateVolumeUpToHeight bicone (Fin (- 1)) 1)
         (calculateVolumeUpToHeight bicone (Fin (1 / 2)) 1) \<and>
   js_le (Fin 2) (Fin 7) \<and> js_le (maximumWorld_y bicone) (Fin 2) \<and>
   calculateVolumeUpToHeight bicone (Fin 7) 1 \<noteq> NaN \<and>
   js_le (calculateVolumeUpToHeight bicone (Fin 2) 1)
         (calculateVolumeUpToHeight bicone (Fin 7) 1)"
  using calculateVolumeUpToHeight_monotone_outside [of bicone "Fin (- 1)" "Fin (1 / 2)" 1]
        calculateVolumeUpToHeight_monotone_outside [of bicone "Fin 2" "Fin 7" 1]
  by (simp add: bicone_fields bicone_volume_half bicone_volume_7)

text \<open>
  The claim fails inside the mesh: with one slice the estimate for the double pyramid is
  \<open>1 / 2\<close> at the target elevation \<open>1 / 2\<close>, where the upper section has area 2, and \<open>0\<close> at
  the target elevation \<open>2\<close>, where both sections are a single point.
\<close>

theorem calculateVolumeUpToHeight_not_monotone:
  "js_le (Fin (1 / 2)) (Fin 2) \<and>
   calculateVolumeUpToHeight bicone (Fin (1 / 2)) 1 = Fin (1 / 2) \<and>
   calculateVolumeUpToHeight bicone (Fin 2) 1 = Fin 0 \<and>
   \<not> js_le (calculateVolumeUpToHeight bicone (Fin (1 / 2)) 1)
           (calculateVolumeUpToHeight bicone (Fin 2) 1)"
  by (simp add: bicone_volume_half bicone_volume_2)

section \<open>A horizontal edge on the cutting plane\<close>

text \<open>
  A point with a \<open>NaN\<close> coordinate among three or more points makes the area \<open>NaN\<close>, in
  whatever order the points are: the sort returns a permutation of them.
\<close>

lemma plus_NaN_right: "a + NaN = (NaN::number)"
  by (cases a) simp_all

lemma sum_list_NaN: "NaN \<in> set xs \<Longrightarrow> sum_list xs = (NaN::number)"
  by (induction xs) (auto simp: plus_NaN_right)

lemma shoelace_term_NaN: "vec_x (ps ! i) = NaN \<Longrightarrow> shoelace_term ps i = NaN"
  by (simp add: shoelace_term_def Let_def minus_number_def)

lemma calculatePolygonArea_NaN_point:
  assumes "3 \<le> length ps" and "p \<in> set ps" and "vec_x p = NaN"
  shows "calculatePolygonArea ps = NaN"
proof -
  from assms(2) obtain i where i: "i < length ps" "ps ! i = p"
    by (auto simp: in_set_conv_nth)
  then have "shoelace_term ps i \<in> set (map (shoelace_term ps) [0..<length ps])"
    by simp
  then have "NaN \<in> set (map (shoelace_term ps) [0..<length ps])"
    using i assms(3) by (simp add: shoelace_term_NaN)
  then have "shoelace_sum ps = NaN"
    unfolding shoelace_sum_def by (rule sum_list_NaN)
  then show ?thesis
    using assms(1) by (simp add: calculatePolygonArea_def shoelace_loop)
qed

lemma mset_insert_by: "mset (insert_by cmp a xs) = add_mset a (mset xs)"
  by (induction xs) simp_all

lemma mset_sort_loop:
  "mset (foldl (\<lambda>sorted a. insert_by cmp a sorted) acc xs) = mset acc + mset xs"
  by (induction xs arbitrary: acc) (simp_all add: mset_insert_by)

lemma mset_sortPointsByAngle: "mset (sortPointsByAngle ps) = mset ps"
  by (simp add: sortPointsByAngle_def Let_def Array_sort_def mset_sort_loop)

lemma sorted_area_NaN_point:
  assumes "3 \<le> length ps" and "p \<in> set ps" and "vec_x p = NaN"
  shows "calculatePolygonArea (sortPointsByAngle ps) = NaN"
proof -
  have "length (sortPointsByAngle ps) = length ps"
    using mset_sortPointsByAngle [of ps] by (metis size_mset)
  moreover have "set (sortPointsByAngle ps) = set ps"
    using mset_sortPointsByAngle [of ps] by (metis set_mset_mset)
  ultimately show ?thesis
    using assms calculatePolygonArea_NaN_point [of "sortPointsByAngle ps" p] by simp
qed

text \<open>
  C2: the claim asks that an edge with both endpoints at the elevation of the plane is
  special-cased and that no \<open>NaN\<close> reaches the area or the volume. The code has no such case:
  for the base triangle of the tetrahedron and the plane of elevation 0 every edge passes the
  test, \<open>t\<close> is \<open>0 / 0\<close>, the three points pushed have \<open>NaN\<close> coordinates, the area of the
  section is \<open>NaN\<close> and so is the estimate.
\<close>

theorem calculateVolumeUpToHeight_horizontal_edge_NaN:
  "findIntersectionPoints (Vector3 (Fin 0) (Fin 0) (Fin 0)) (Vector3 (Fin 1) (Fin 0) (Fin 0))
     (Vector3 (Fin 0) (Fin 0) (Fin 1)) (Fin 0) [] =
     [Vector3 NaN (Fin 0) NaN, Vector3 NaN (Fin 0) NaN, Vector3 NaN (Fin 0) NaN] \<and>
   calculateCrossSectionArea tetrahedron (Fin 0) = NaN \<and>
   calculateVolumeUpToHeight tetrahedron (Fin 1) 1 = NaN"
  using tetrahedron_volume_NaN [of 1 1]
  by (simp add: tetrahedron_area_0 findIntersectionPoints_def edge_body_def interpolate_def
        Let_def js_ge_def minus_number_def)

text \<open>
  C9: the claim asks for a non-negative real number as the result for every mesh, target
  elevation and positive slice count. For the tetrahedron, the target elevation 1 and the
  default slice count 100 the result is \<open>NaN\<close>, which is not at or above 0. The function
  keeps no state and prints nothing.
\<close>

theorem calculateVolumeUpToHeight_default_slices_NaN:
  "calculateVolumeUpToHeight tetrahedron (Fin 1) 100 = NaN \<and>
   \<not> js_le (Fin 0) (calculateVolumeUpToHeight tetrahedron (Fin 1) 100)"
  using tetrahedron_volume_NaN [of 1 100] by simp

section \<open>Rounding\<close>














section \<open>The shoelace formula in double precision\<close>





















section \<open>The trapezoidal rule in double precision\<close>































end
